theory Spec2Isabelle
  imports Complex_Main "HOL-Library.Sublist"
begin

section \<open>JavaScript values of the data bag\<close>

text \<open>
  The data bag handed to \<^verbatim>\<open>render\<close> and \<^verbatim>\<open>renderHtml\<close> is declared as
  \<^verbatim>\<open>Record<string, string>\<close>, but the dotted walk of \<^verbatim>\<open>renderChildren\<close>
  descends into nested objects and arrays, and the walk runs over
  \<^verbatim>\<open>JSON.parse(JSON.stringify(data))\<close>. The values are therefore modelled as JSON
  trees. \<^verbatim>\<open>undefined\<close> is \<open>None\<close> of \<open>json option\<close>.

  Modelling decisions:
  \<^item> numbers are the integers (the JSON numbers whose \<^verbatim>\<open>String\<close> form is their decimal
    numeral);
  \<^item> a string is a list of code units, written as an Isabelle \<open>string\<close>;
  \<^item> an object is an association list of its own properties, read with \<open>map_of\<close>;
  \<^item> only own properties, array and string indices and \<^verbatim>\<open>length\<close> are modelled:
    members inherited from the built-in prototypes (\<^verbatim>\<open>toString\<close>,
    \<^verbatim>\<open>constructor\<close>, ...) are outside the model, so keys and path segments are
    taken not to name them;
  \<^item> values that JSON cannot hold (cycles, functions, symbols) are outside the model.
\<close>

datatype json =
    JNull
  | JBool bool
  | JNum int
  | JStr string
  | JArr "json list"
  | JObj "(string \<times> json) list"

datatype js_error = TypeError

subsection \<open>Number to string\<close>

definition digit_char :: "nat \<Rightarrow> char" where
  "digit_char d = ''0123456789'' ! d"

function nat_to_string :: "nat \<Rightarrow> string" where
  "nat_to_string n =
     (if n < 10 then [digit_char n] else nat_to_string (n div 10) @ [digit_char (n mod 10)])"
  by pat_completeness auto
termination
  by (relation "measure id") auto

declare nat_to_string.simps [simp del]

definition int_to_string :: "int \<Rightarrow> string" where
  "int_to_string i = (if i < 0 then CHR ''-'' # nat_to_string (nat (- i)) else nat_to_string (nat i))"

subsection \<open>\<^verbatim>\<open>String(v)\<close>, truthiness, joining\<close>

fun join :: "string \<Rightarrow> string list \<Rightarrow> string" where
  "join sep [] = []"
| "join sep [x] = x"
| "join sep (x # y # ys) = x @ sep @ join sep (y # ys)"

text \<open>
  \<^verbatim>\<open>String(v)\<close>: an array is its elements joined by a comma, a \<^verbatim>\<open>null\<close> element
  giving the empty string; an object is \<^verbatim>\<open>[object Object]\<close>.
\<close>

fun js_String :: "json \<Rightarrow> string" where
  "js_String JNull = ''null''"
| "js_String (JBool b) = (if b then ''true'' else ''false'')"
| "js_String (JNum n) = int_to_string n"
| "js_String (JStr s) = s"
| "js_String (JArr xs) = join '','' (map (\<lambda>x. if x = JNull then [] else js_String x) xs)"
| "js_String (JObj kvs) = ''[object Object]''"

fun js_truthy :: "json \<Rightarrow> bool" where
  "js_truthy JNull = False"
| "js_truthy (JBool b) = b"
| "js_truthy (JNum n) = (n \<noteq> 0)"
| "js_truthy (JStr s) = (s \<noteq> [])"
| "js_truthy (JArr xs) = True"
| "js_truthy (JObj kvs) = True"

subsection \<open>Property reads\<close>

definition is_digit :: "char \<Rightarrow> bool" where
  "is_digit c = (c \<in> set ''0123456789'')"

definition digit_val :: "char \<Rightarrow> nat" where
  "digit_val c = of_char c - 48"

text \<open>
  A property name is an array index when it is the canonical decimal numeral of a natural
  number: digits only, no leading zero except for \<^verbatim>\<open>"0"\<close> itself.
\<close>

definition array_index :: "string \<Rightarrow> nat option" where
  "array_index k =
     (if k \<noteq> [] \<and> list_all is_digit k \<and> (k = ''0'' \<or> hd k \<noteq> CHR ''0'')
      then Some (foldl (\<lambda>acc c. 10 * acc + digit_val c) 0 k) else None)"

text \<open>
  \<^verbatim>\<open>v[k]\<close>. Reading a property of \<^verbatim>\<open>null\<close> throws a \<^verbatim>\<open>TypeError\<close>; a
  missing property reads as \<^verbatim>\<open>undefined\<close>.
\<close>

fun js_get :: "json \<Rightarrow> string \<Rightarrow> js_error + json option" where
  "js_get JNull k = Inl TypeError"
| "js_get (JBool b) k = Inr None"
| "js_get (JNum n) k = Inr None"
| "js_get (JStr s) k =
     Inr (if k = ''length'' then Some (JNum (int (length s)))
          else (case array_index k of
                  Some i \<Rightarrow> if i < length s then Some (JStr [s ! i]) else None
                | None \<Rightarrow> None))"
| "js_get (JArr xs) k =
     Inr (if k = ''length'' then Some (JNum (int (length xs)))
          else (case array_index k of
                  Some i \<Rightarrow> if i < length xs then Some (xs ! i) else None
                | None \<Rightarrow> None))"
| "js_get (JObj kvs) k = Inr (map_of kvs k)"

subsection \<open>\<^verbatim>\<open>JSON.parse(JSON.stringify(v))\<close> and \<^verbatim>\<open>split\<close>\<close>

fun deep_copy :: "json \<Rightarrow> json" where
  "deep_copy JNull = JNull"
| "deep_copy (JBool b) = JBool b"
| "deep_copy (JNum n) = JNum n"
| "deep_copy (JStr s) = JStr s"
| "deep_copy (JArr xs) = JArr (map deep_copy xs)"
| "deep_copy (JObj kvs) = JObj (map (map_prod id deep_copy) kvs)"

text \<open>\<^verbatim>\<open>s.split(c)\<close> for a one-character separator: never the empty list.\<close>

fun split_on :: "char \<Rightarrow> string \<Rightarrow> string list" where
  "split_on c [] = [[]]"
| "split_on c (x # xs) =
     (if x = c then [] # split_on c xs
      else (let r = split_on c xs in (x # hd r) # tl r))"

section \<open>Field resolution of the binary renderer\<close>

text \<open>
  The \<^verbatim>\<open>for\<close> loop of \<^verbatim>\<open>renderChildren\<close> (lines 188 to 194): \<open>Inr None\<close> is
  \<^verbatim>\<open>isBreak = true\<close>, \<open>Inr (Some v)\<close> the final \<^verbatim>\<open>tmpValue\<close>.
\<close>

fun walk :: "json \<Rightarrow> string list \<Rightarrow> js_error + json option" where
  "walk tmpValue [] = Inr (Some tmpValue)"
| "walk tmpValue (p # ps) =
     (case js_get tmpValue p of
        Inl e \<Rightarrow> Inl e
      | Inr None \<Rightarrow> Inr None
      | Inr (Some v) \<Rightarrow> if \<not> js_truthy v then Inr None else walk v ps)"

text \<open>
  Lines 178 to 199 of \<^verbatim>\<open>renderChildren\<close>: the assignment to \<^verbatim>\<open>value\<close>, which
  starts as the default text. The data bag and the field may both be \<^verbatim>\<open>undefined\<close>.
\<close>

definition resolve :: "json option \<Rightarrow> string option \<Rightarrow> string \<Rightarrow> js_error + string" where
  "resolve data field value =
     (case (data, field) of
        (Some d, Some f) \<Rightarrow>
          if js_truthy d \<and> f \<noteq> [] then
            (case js_get d f of
               Inl e \<Rightarrow> Inl e
             | Inr (Some v) \<Rightarrow> Inr (js_String v)
             | Inr None \<Rightarrow>
                 if CHR ''.'' \<in> set f then
                   (case walk (deep_copy d) (split_on CHR ''.'' f) of
                      Inl e \<Rightarrow> Inl e
                    | Inr None \<Rightarrow> Inr value
                    | Inr (Some tmpValue) \<Rightarrow> Inr (js_String tmpValue))
                 else Inr value)
          else Inr value
      | _ \<Rightarrow> Inr value)"

section \<open>Inline markup: \<^verbatim>\<open>parseText\<close>\<close>

record tag_match =
  m_type :: string
  m_value :: string
  m_start :: nat
  m_end :: nat

record part =
  p_type :: string
  p_value :: string

definition inlineTags :: "string list" where
  "inlineTags = [''sup'', ''sub'', ''strong'', ''b'', ''em'', ''i'', ''del'', ''s'', ''u'']"

definition open_tag :: "string \<Rightarrow> string" where
  "open_tag tag = ''<'' @ tag @ ''>''"

definition close_tag :: "string \<Rightarrow> string" where
  "close_tag tag = ''</'' @ tag @ ''>''"

text \<open>
  The dot of a regular expression matches any code unit but a line terminator. Of the four
  line terminators, line feed and carriage return are code units of this model.
\<close>

definition is_line_terminator :: "char \<Rightarrow> bool" where
  "is_line_terminator c = (c = CHR 0x0A \<or> c = CHR 0x0D)"

text \<open>
  \<^verbatim>\<open>(.*?)</tag>\<close> tried at the head of a text: the lazy star first tries the closing
  tag, and only when that fails consumes one more code unit. The result is the captured
  group and the text after the match.
\<close>

fun lazy_body :: "string \<Rightarrow> string \<Rightarrow> (string \<times> string) option" where
  "lazy_body cls [] = (if cls = [] then Some ([], []) else None)"
| "lazy_body cls (x # xs) =
     (if prefix cls (x # xs) then Some ([], drop (length cls) (x # xs))
      else if is_line_terminator x then None
      else map_option (\<lambda>(v, r). (x # v, r)) (lazy_body cls xs))"

lemma lazy_body_decomp: "lazy_body cls s = Some (v, r) \<Longrightarrow> s = v @ cls @ r"
proof (induction s arbitrary: v)
  case Nil
  then show ?case by (simp split: if_splits)
next
  case (Cons x xs)
  show ?case
  proof (cases "prefix cls (x # xs)")
    case True
    with Cons.prems have "v = []" "r = drop (length cls) (x # xs)" by simp_all
    moreover from True obtain zs where "x # xs = cls @ zs" by (auto simp: prefix_def)
    ultimately show ?thesis by simp
  next
    case False
    with Cons.prems obtain v' where "lazy_body cls xs = Some (v', r)" "v = x # v'"
      by (auto split: if_splits)
    with Cons.IH show ?thesis by simp
  qed
qed

text \<open>
  \<^verbatim>\<open>line.matchAll(new RegExp(`<${tag}>(.*?)</${tag}>`, "g"))\<close>, lines 285 to 293: the
  matches from left to right, each search starting where the previous match ended. The
  second argument is the index in the line of the text still to be searched.
\<close>

function matchAll :: "string \<Rightarrow> nat \<Rightarrow> string \<Rightarrow> tag_match list" where
  "matchAll tag i [] = []"
| "matchAll tag i (x # xs) =
     (if prefix (open_tag tag) (x # xs) then
        (case lazy_body (close_tag tag) (drop (length (open_tag tag)) (x # xs)) of
           Some (v, r) \<Rightarrow>
             \<lparr>m_type = tag, m_value = v, m_start = i,
              m_end = i + length (open_tag tag) + length v + length (close_tag tag)\<rparr>
             # matchAll tag (i + length (open_tag tag) + length v + length (close_tag tag)) r
         | None \<Rightarrow> matchAll tag (Suc i) xs)
      else matchAll tag (Suc i) xs)"
  by pat_completeness auto
termination
proof (relation "measure (\<lambda>(tag, i, s). length s)")
  fix tag :: string and i :: nat and x :: char and xs :: string and p v r
  assume "prefix (open_tag tag) (x # xs)"
    and "lazy_body (close_tag tag) (drop (length (open_tag tag)) (x # xs)) = Some p"
    and "(v, r) = p"
  then have "drop (length (open_tag tag)) (x # xs) = v @ close_tag tag @ r"
    using lazy_body_decomp by metis
  then have "length r \<le> length (drop (length (open_tag tag)) (x # xs))"
    by simp
  also have "\<dots> < length (x # xs)"
    by (simp add: open_tag_def)
  finally show "((tag, i + length (open_tag tag) + length v + length (close_tag tag), r),
                 (tag, i, x # xs)) \<in> measure (\<lambda>(tag, i, s). length s)"
    by simp
qed auto

declare matchAll.simps [simp del]

text \<open>\<^verbatim>\<open>s.slice(a, b)\<close> for indices that are not negative.\<close>

definition slice :: "string \<Rightarrow> nat \<Rightarrow> nat \<Rightarrow> string" where
  "slice s a b = take (b - a) (drop a s)"

text \<open>Lines 299 to 323: the loop over the sorted matches and the rest of the line.\<close>

fun parts_loop :: "string \<Rightarrow> nat \<Rightarrow> tag_match list \<Rightarrow> part list" where
  "parts_loop line lastIndex [] =
     (if lastIndex < length line
      then [\<lparr>p_type = ''text'', p_value = drop lastIndex line\<rparr>] else [])"
| "parts_loop line lastIndex (m # ms) =
     (if m_start m > lastIndex
      then [\<lparr>p_type = ''text'', p_value = slice line lastIndex (m_start m)\<rparr>] else [])
     @ \<lparr>p_type = m_type m, p_value = m_value m\<rparr> # parts_loop line (m_end m) ms"

text \<open>Lines 281 to 297: the matches of all tags, sorted by start (the sort is stable).\<close>

definition line_matches :: "string \<Rightarrow> tag_match list" where
  "line_matches line = sort_key m_start (concat (map (\<lambda>tag. matchAll tag 0 line) inlineTags))"

definition parse_line :: "string \<Rightarrow> part list" where
  "parse_line line = parts_loop line 0 (line_matches line)"

definition parseText :: "string \<Rightarrow> part list list" where
  "parseText input = map parse_line (split_on (CHR 0x0A) input)"





section \<open>Font sizes\<close>

text \<open>
  \<^verbatim>\<open>IChineseFontSize\<close>, the sixteen named sizes of \<^verbatim>\<open>types.ts\<close>, in the order of
  the source: chu hao (U+521D U+53F7), xiao chu (U+5C0F U+521D), yi hao (U+4E00 U+53F7),
  xiao yi (U+5C0F U+4E00), er hao (U+4E8C U+53F7), xiao er (U+5C0F U+4E8C),
  san hao (U+4E09 U+53F7), xiao san (U+5C0F U+4E09), si hao (U+56DB U+53F7),
  xiao si (U+5C0F U+56DB), wu hao (U+4E94 U+53F7), xiao wu (U+5C0F U+4E94),
  liu hao (U+516D U+53F7), xiao liu (U+5C0F U+516D), qi hao (U+4E03 U+53F7),
  ba hao (U+516B U+53F7).
\<close>

datatype IChineseFontSize =
    ChuHao | XiaoChu | YiHao | XiaoYi | ErHao | XiaoEr | SanHao | XiaoSan
  | SiHao | XiaoSi | WuHao | XiaoWu | LiuHao | XiaoLiu | QiHao | BaHao

text \<open>
  \<^verbatim>\<open>IFontSize = IChineseFontSize | number\<close>. A number is the rational it denotes.
\<close>

datatype IFontSize = Points rat | Named IChineseFontSize

fun fontSizeMap :: "IChineseFontSize \<Rightarrow> rat" where
  "fontSizeMap ChuHao = 42"
| "fontSizeMap XiaoChu = 36"
| "fontSizeMap YiHao = 26"
| "fontSizeMap XiaoYi = 24"
| "fontSizeMap ErHao = 22"
| "fontSizeMap XiaoEr = 18"
| "fontSizeMap SanHao = 16"
| "fontSizeMap XiaoSan = 15"
| "fontSizeMap SiHao = 14"
| "fontSizeMap XiaoSi = 12"
| "fontSizeMap WuHao = 21 / 2"
| "fontSizeMap XiaoWu = 9"
| "fontSizeMap LiuHao = 15 / 2"
| "fontSizeMap XiaoLiu = 13 / 2"
| "fontSizeMap QiHao = 11 / 2"
| "fontSizeMap BaHao = 5"

text \<open>\<^verbatim>\<open>Math.round\<close>: the nearest integer, a tie going up.\<close>

definition Math_round :: "rat \<Rightarrow> int" where
  "Math_round x = \<lfloor>x + 1 / 2\<rfloor>"

text \<open>
  \<^verbatim>\<open>textSize\<close>, lines 669 to 693. Doubling a binary floating-point number is exact, so
  the product needs no rounding step.
\<close>

fun textSize :: "IFontSize \<Rightarrow> int" where
  "textSize (Points fontSize) = Math_round (fontSize * 2)"
| "textSize (Named fontSize) = Math_round (fontSizeMap fontSize * 2)"

section \<open>The content tree\<close>

text \<open>
  Options of the document library that this code only hands on are kept as a bag of
  entries.
\<close>

type_synonym options_bag = "(string \<times> json) list"

record IHtmlConfig =
  hc_field :: string
  hc_name :: "string option"
  hc_props :: "options_bag option"

text \<open>
  \<^verbatim>\<open>ITextTypeOptions\<close>: the run options that \<^verbatim>\<open>renderChildren\<close> reads or sets,
  each optional, with \<^verbatim>\<open>field\<close> and \<^verbatim>\<open>htmlConfig\<close>. A size is a number of
  half-points; an underline is kept by the name of its type.
\<close>

record ITextTypeOptions =
  run_text :: "string option"
  run_field :: "string option"
  run_htmlConfig :: "IHtmlConfig option"
  run_font :: "string option"
  run_size :: "int option"
  run_bold :: "bool option"
  run_italics :: "bool option"
  run_underline :: "string option"
  run_strike :: "bool option"
  run_subScript :: "bool option"
  run_superScript :: "bool option"
  run_break :: "nat option"
  run_color :: "string option"

datatype inline_item =
    TextType ITextTypeOptions
  | ImageType options_bag

datatype content_item =
    ParagraphType options_bag "inline_item list"
  | EmptyParagraphType
  | TableType options_bag "ITableRow list"
and ITableRow = Row options_bag "ITableCell list"
and ITableCell = Cell options_bag "content_item list"

text \<open>What the renderer builds: the objects of the document library.\<close>

datatype ParagraphChild =
    TextRun ITextTypeOptions
  | ImageRun options_bag

datatype FileChild =
    Paragraph options_bag "ParagraphChild list"
  | Table options_bag "TableRow list"
and TableRow = TableRow options_bag "TableCell list"
and TableCell = TableCell options_bag "FileChild list"

text \<open>The fields of a \<^verbatim>\<open>DocxBuilder\<close> that rendering reads.\<close>

record DocxBuilder =
  builder_id :: string
  defaultFont :: string
  defaultFontSize :: IFontSize

section \<open>The binary renderer: \<^verbatim>\<open>renderChildren\<close>\<close>

text \<open>Line 176: \<^verbatim>\<open>options.field ?? options.htmlConfig?.field\<close>.\<close>

definition run_effective_field :: "ITextTypeOptions \<Rightarrow> string option" where
  "run_effective_field options =
     (case run_field options of
        Some f \<Rightarrow> Some f
      | None \<Rightarrow> map_option hc_field (run_htmlConfig options))"

text \<open>Line 175: \<^verbatim>\<open>options.text ?? ""\<close>, the default text of a run.\<close>

definition default_text :: "ITextTypeOptions \<Rightarrow> string" where
  "default_text options = (case run_text options of Some t \<Rightarrow> t | None \<Rightarrow> [])"

text \<open>Lines 175 to 199: the value of a text run.\<close>

definition renderChildren_value :: "json option \<Rightarrow> ITextTypeOptions \<Rightarrow> js_error + string" where
  "renderChildren_value data options =
     resolve data (run_effective_field options) (default_text options)"

text \<open>Lines 203 to 215: the run built for one segment of one line.\<close>

definition segment_run ::
  "DocxBuilder \<Rightarrow> ITextTypeOptions \<Rightarrow> nat \<Rightarrow> part list \<Rightarrow> nat \<Rightarrow> part \<Rightarrow> ITextTypeOptions" where
  "segment_run this options lineIndex line itemIndex item =
     options\<lparr>
       run_text := Some (p_value item),
       run_font := Some (case run_font options of Some f \<Rightarrow> f | None \<Rightarrow> defaultFont this),
       run_size := Some (case run_size options of Some n \<Rightarrow> n
                         | None \<Rightarrow> textSize (defaultFontSize this)),
       run_bold := Some (case run_bold options of Some b \<Rightarrow> b
                         | None \<Rightarrow> p_type item = ''strong'' \<or> p_type item = ''b''),
       run_italics := Some (case run_italics options of Some b \<Rightarrow> b
                            | None \<Rightarrow> p_type item = ''em'' \<or> p_type item = ''i''),
       run_underline := (case run_underline options of Some u \<Rightarrow> Some u
                         | None \<Rightarrow> if p_type item = ''u'' then Some ''single'' else None),
       run_strike := Some (case run_strike options of Some b \<Rightarrow> b
                           | None \<Rightarrow> p_type item = ''del'' \<or> p_type item = ''s''),
       run_subScript := Some (case run_subScript options of Some b \<Rightarrow> b
                              | None \<Rightarrow> p_type item = ''sub''),
       run_superScript := Some (case run_superScript options of Some b \<Rightarrow> b
                                | None \<Rightarrow> p_type item = ''sup''),
       run_break := Some (case run_break options of Some n \<Rightarrow> n
                          | None \<Rightarrow> if lineIndex \<noteq> 0 \<and> itemIndex = length line - 1
                                    then 1 else 0)\<rparr>"

text \<open>Lines 202 to 217: the inner \<^verbatim>\<open>forEach\<close>, over the segments of one line.\<close>

definition line_runs ::
  "DocxBuilder \<Rightarrow> ITextTypeOptions \<Rightarrow> nat \<Rightarrow> part list \<Rightarrow> ParagraphChild list" where
  "line_runs this options lineIndex line =
     map (\<lambda>(itemIndex, item). TextRun (segment_run this options lineIndex line itemIndex item))
       (enumerate 0 line)"

text \<open>Lines 201 to 218: nothing for the empty value, else the runs of all lines.\<close>

definition text_runs :: "DocxBuilder \<Rightarrow> ITextTypeOptions \<Rightarrow> string \<Rightarrow> ParagraphChild list" where
  "text_runs this options value =
     (if value = [] then []
      else concat (map (\<lambda>(lineIndex, line). line_runs this options lineIndex line)
                     (enumerate 0 (parseText value))))"

text \<open>Lines 172 to 224: the \<^verbatim>\<open>forEach\<close> over the children of a paragraph.\<close>

fun paragraphChildren ::
  "DocxBuilder \<Rightarrow> json option \<Rightarrow> inline_item list \<Rightarrow> js_error + ParagraphChild list" where
  "paragraphChildren this data [] = Inr []"
| "paragraphChildren this data (TextType options # rest) =
     (case renderChildren_value data options of
        Inl e \<Rightarrow> Inl e
      | Inr value \<Rightarrow>
          (case paragraphChildren this data rest of
             Inl e \<Rightarrow> Inl e
           | Inr cs \<Rightarrow> Inr (text_runs this options value @ cs)))"
| "paragraphChildren this data (ImageType options # rest) =
     (case paragraphChildren this data rest of
        Inl e \<Rightarrow> Inl e
      | Inr cs \<Rightarrow> Inr (ImageRun options # cs))"

text \<open>The run of a literal empty paragraph, \<^verbatim>\<open>new TextRun({ text: "" })\<close>.\<close>

definition empty_text_run :: ITextTypeOptions where
  "empty_text_run =
     \<lparr>run_text = Some [], run_field = None, run_htmlConfig = None, run_font = None,
      run_size = None, run_bold = None, run_italics = None, run_underline = None,
      run_strike = None, run_subScript = None, run_superScript = None, run_break = None,
      run_color = None\<rparr>"

definition emptyParagraph :: FileChild where
  "emptyParagraph = Paragraph [] [TextRun empty_text_run]"

text \<open>\<^verbatim>\<open>renderChildren\<close>, lines 166 to 266, with the rows and cells of a table.\<close>

fun renderChildren :: "DocxBuilder \<Rightarrow> json option \<Rightarrow> content_item list \<Rightarrow> js_error + FileChild list"
  and renderRows :: "DocxBuilder \<Rightarrow> json option \<Rightarrow> ITableRow list \<Rightarrow> js_error + TableRow list"
  and renderCells :: "DocxBuilder \<Rightarrow> json option \<Rightarrow> ITableCell list \<Rightarrow> js_error + TableCell list"
where
  "renderChildren this data [] = Inr []"
| "renderChildren this data (ParagraphType options children # rest) =
     (case paragraphChildren this data children of
        Inl e \<Rightarrow> Inl e
      | Inr cs \<Rightarrow>
          (case renderChildren this data rest of
             Inl e \<Rightarrow> Inl e
           | Inr fileChild \<Rightarrow>
               Inr ((if length cs > 0 then [Paragraph options cs] else []) @ fileChild)))"
| "renderChildren this data (EmptyParagraphType # rest) =
     (case renderChildren this data rest of
        Inl e \<Rightarrow> Inl e
      | Inr fileChild \<Rightarrow> Inr (emptyParagraph # fileChild))"
| "renderChildren this data (TableType options rows # rest) =
     (case renderRows this data rows of
        Inl e \<Rightarrow> Inl e
      | Inr rs \<Rightarrow>
          (case renderChildren this data rest of
             Inl e \<Rightarrow> Inl e
           | Inr fileChild \<Rightarrow> Inr (Table options rs # fileChild)))"
| "renderRows this data [] = Inr []"
| "renderRows this data (Row rowOptions cells # rows) =
     (case renderCells this data cells of
        Inl e \<Rightarrow> Inl e
      | Inr cs \<Rightarrow>
          (case renderRows this data rows of
             Inl e \<Rightarrow> Inl e
           | Inr rs \<Rightarrow> Inr (TableRow rowOptions cs # rs)))"
| "renderCells this data [] = Inr []"
| "renderCells this data (Cell cellOptions children # cells) =
     (case renderChildren this data children of
        Inl e \<Rightarrow> Inl e
      | Inr fc \<Rightarrow>
          (case renderCells this data cells of
             Inl e \<Rightarrow> Inl e
           | Inr cs \<Rightarrow> Inr (TableCell cellOptions fc # cs)))"

text \<open>
  The constructor, lines 19 to 22: the identifier counts the builders made so far, the
  default font is Arial and the default size ten points.
\<close>

definition new_DocxBuilder :: "nat \<Rightarrow> DocxBuilder" where
  "new_DocxBuilder count =
     \<lparr>builder_id = ''docx-builder'' @ nat_to_string count, defaultFont = ''Arial'',
      defaultFontSize = Points 10\<rparr>"

text \<open>What a built paragraph child shows: its text and the number of its leading breaks.\<close>

fun text_of :: "ParagraphChild \<Rightarrow> string option" where
  "text_of (TextRun r) = run_text r"
| "text_of (ImageRun i) = None"

fun break_of :: "ParagraphChild \<Rightarrow> nat option" where
  "break_of (TextRun r) = run_break r"
| "break_of (ImageRun i) = None"



section \<open>The HTML renderer: the value of a text run\<close>

text \<open>
  The \<^verbatim>\<open>for\<close> loop of \<^verbatim>\<open>renderChildrenHtml\<close>, lines 484 to 490: it stops only at
  a read that is \<^verbatim>\<open>undefined\<close>, so the cursor can become \<^verbatim>\<open>null\<close>.
\<close>

fun walkHtml :: "json \<Rightarrow> string list \<Rightarrow> js_error + json option" where
  "walkHtml tmpValue [] = Inr (Some tmpValue)"
| "walkHtml tmpValue (p # ps) =
     (case js_get tmpValue p of
        Inl e \<Rightarrow> Inl e
      | Inr None \<Rightarrow> Inr None
      | Inr (Some v) \<Rightarrow> walkHtml v ps)"

text \<open>
  Lines 473 to 495 of \<^verbatim>\<open>renderChildrenHtml\<close>: the assignment to \<^verbatim>\<open>value\<close> for a
  run with an \<^verbatim>\<open>htmlConfig\<close>, whose field is a string.
\<close>

definition resolveHtml :: "json option \<Rightarrow> string \<Rightarrow> string \<Rightarrow> js_error + string" where
  "resolveHtml data field value =
     (case data of
        None \<Rightarrow> Inr value
      | Some d \<Rightarrow>
          if js_truthy d then
            (case js_get d field of
               Inl e \<Rightarrow> Inl e
             | Inr (Some v) \<Rightarrow> Inr (js_String v)
             | Inr None \<Rightarrow>
                 if CHR ''.'' \<in> set field then
                   (case walkHtml (deep_copy d) (split_on CHR ''.'' field) of
                      Inl e \<Rightarrow> Inl e
                    | Inr None \<Rightarrow> Inr value
                    | Inr (Some tmpValue) \<Rightarrow> Inr (js_String tmpValue))
                 else Inr value)
          else Inr value)"

text \<open>
  Lines 469 to 520: the text that the control or the span of a text run shows, before
  tabs and newlines are replaced. With an \<^verbatim>\<open>htmlConfig\<close> it is the resolved value;
  without one it is \<^verbatim>\<open>options.text\<close>, or the empty string. \<^verbatim>\<open>options.field\<close> is
  not read.
\<close>

definition renderChildrenHtml_value :: "json option \<Rightarrow> ITextTypeOptions \<Rightarrow> js_error + string" where
  "renderChildrenHtml_value data options =
     (case run_htmlConfig options of
        Some htmlConfig \<Rightarrow> resolveHtml data (hc_field htmlConfig) (default_text options)
      | None \<Rightarrow> Inr (case run_text options of Some t \<Rightarrow> t | None \<Rightarrow> []))"

section \<open>The style sheet of the HTML preview\<close>

text \<open>
  The document of the page, as far as \<^verbatim>\<open>injectStyle\<close> reads and changes it: the
  elements of the head and of the body, in document order, each with the name it was
  created with, its identifier and its text. \<^verbatim>\<open>getElementById\<close> returns the first
  element with the identifier, of whatever kind.
\<close>

record element =
  el_tag :: string
  el_id :: string
  el_textContent :: string

record document =
  doc_head :: "element list"
  doc_body :: "element list"

definition getElementById :: "document \<Rightarrow> string \<Rightarrow> element option" where
  "getElementById doc ident = find (\<lambda>e. el_id e = ident) (doc_head doc @ doc_body doc)"

text \<open>The text of the style element, lines 377 to 431, line by line.\<close>

definition style_textContent :: string where
  "style_textContent = join [CHR 0x0A]
     [
      '''',
      ''        .docx-builder-section {'',
      ''          background-color: #fff;'',
      ''        }'',
      ''        .docx-builder-p {'',
      ''          margin: 0;'',
      ''        }'',
      ''        .docx-builder-table {'',
      ''          border-collapse: collapse;'',
      ''          width: 100%;'',
      ''        }'',
      ''        .docx-builder-td {'',
      ''          border: 1px solid #dddddd;'',
      ''          padding: 0 6px;'',
      ''        }'',
      ''        .docx-builder-input,'',
      ''        .docx-builder-textarea,'',
      ''        .docx-builder-select {'',
      ''          height: 32px;'',
      ''          line-height: 1.3;'',
      ''          border: 1px solid #eee;'',
      ''          background-color: #fff;'',
      ''          color: rgba(0, 0, 0, .85);'',
      ''          border-radius: 2px;'',
      ''          outline: 0;'',
      ''          transition: all .3s;'',
      ''          box-sizing: border-box;'',
      ''        }'',
      ''        .docx-builder-input:hover,'',
      ''        .docx-builder-textarea:hover,'',
      ''        .docx-builder-select:hover {'',
      ''          border-color: #d2d2d2;'',
      ''        }'',
      ''        .docx-builder-input:focus,'',
      ''        .docx-builder-textarea:focus,'',
      ''        .docx-builder-select:focus {'',
      ''          border-color: #409eff;'',
      ''          box-shadow: 0 0 0 3px rgba(22,183,119,.08);'',
      ''        }'',
      ''        .docx-builder-input {'',
      ''          padding-left: 10px;'',
      ''        }'',
      ''        .docx-builder-textarea {'',
      ''          min-height: 80px;'',
      ''          line-height: 20px;'',
      ''          padding: 6px 10px;'',
      ''          resize: vertical;'',
      ''        }'',
      ''        .docx-builder-select {'',
      ''          padding: 0 15px;'',
      ''          cursor: pointer;'',
      ''        }'',
      ''        .docx-builder-option {'',
      ''        }'',
      ''      ''
     ]"

text \<open>
  \<^verbatim>\<open>injectStyle\<close>, lines 372 to 435: the element found or made, and the document
  afterwards.
\<close>

definition injectStyle :: "string \<Rightarrow> document \<Rightarrow> element \<times> document" where
  "injectStyle ident doc =
     (case getElementById doc ident of
        Some style \<Rightarrow> (style, doc)
      | None \<Rightarrow>
          (let style = \<lparr>el_tag = ''style'', el_id = ident, el_textContent = style_textContent\<rparr>
           in (style, doc\<lparr>doc_head := doc_head doc @ [style]\<rparr>)))"

text \<open>
  What \<^verbatim>\<open>renderHtml\<close>, lines 351 to 365, does to the document: the one call of line
  363. The markup it returns is built from the builder and the data alone and is not part
  of this model.
\<close>

definition renderHtml_document :: "DocxBuilder \<Rightarrow> json option \<Rightarrow> document \<Rightarrow> document" where
  "renderHtml_document this data doc = snd (injectStyle ''docx-builder-style'' doc)"

text \<open>A sequence of calls of \<^verbatim>\<open>renderHtml\<close>, each by some builder with some data.\<close>

definition renderHtml_calls :: "(DocxBuilder \<times> json option) list \<Rightarrow> document \<Rightarrow> document" where
  "renderHtml_calls calls doc = fold (\<lambda>(this, data). renderHtml_document this data) calls doc"

text \<open>The number of elements of the document with an identifier.\<close>

definition count_id :: "string \<Rightarrow> document \<Rightarrow> nat" where
  "count_id ident doc = length (filter (\<lambda>e. el_id e = ident) (doc_head doc @ doc_body doc))"

section \<open>Unit conversions\<close>

text \<open>
  A number is the rational it denotes, and the arithmetic of the source is binary64
  arithmetic: the result of an operation, and the value of a decimal literal, is the
  nearest binary64 number, a tie going to the even significand. \<open>fl\<close> is that rounding,
  for magnitudes below \<open>2 ^ 1024\<close> (there is no infinity here); below \<open>2 ^ - 1022\<close> the
  spacing is that of the subnormal numbers.
\<close>

definition pow2 :: "int \<Rightarrow> rat" where
  "pow2 e = (if 0 \<le> e then 2 ^ nat e else 1 / 2 ^ nat (- e))"

function bit_length :: "int \<Rightarrow> int" where
  "bit_length n = (if n \<le> 0 then 0 else 1 + bit_length (n div 2))"
  by pat_completeness auto
termination
  by (relation "measure nat") auto

declare bit_length.simps [simp del]

text \<open>
  The binary exponent of a positive rational \<open>x\<close>: the \<open>e\<close> with
  \<open>2 ^ e \<le> x < 2 ^ (e + 1)\<close>, which the bit lengths of numerator and denominator give up
  to one.
\<close>

definition binary_exponent :: "rat \<Rightarrow> int" where
  "binary_exponent x =
     (let (a, b) = quotient_of x;
          k = bit_length a - bit_length b
      in if pow2 k \<le> x then k else k - 1)"

definition round_half_even :: "rat \<Rightarrow> int" where
  "round_half_even q =
     (let f = \<lfloor>q\<rfloor>; r = q - of_int f
      in if r < 1 / 2 then f else if 1 / 2 < r then f + 1 else if even f then f else f + 1)"

definition fl :: "rat \<Rightarrow> rat" where
  "fl x =
     (if x = 0 then 0
      else (let u = pow2 (max (binary_exponent \<bar>x\<bar> - 52) (- 1074))
            in sgn x * (of_int (round_half_even (\<bar>x\<bar> / u)) * u)))"

text \<open>Lines 771 to 800, and lines 700 to 713.\<close>

definition cmToTwips :: "rat \<Rightarrow> int" where
  "cmToTwips cm = Math_round (fl (cm * fl (56693 / 100)))"






section \<open>Field resolution never fails\<close>

lemma deep_copy_id: "deep_copy v = v"
  by (induction v) (auto simp: map_idI intro!: map_idI)

lemma js_get_truthy: "js_truthy v \<Longrightarrow> \<exists>r. js_get v k = Inr r"
  by (cases v) auto

lemma walk_total: "js_truthy v \<Longrightarrow> \<exists>r. walk v ps = Inr r"
proof (induction ps arbitrary: v)
  case Nil
  then show ?case by simp
next
  case (Cons p ps)
  from js_get_truthy [OF Cons.prems] obtain r where r: "js_get v p = Inr r" by blast
  show ?case
  proof (cases r)
    case None
    with r show ?thesis by simp
  next
    case (Some w)
    with r Cons.IH [of w] show ?thesis by (cases "js_truthy w") auto
  qed
qed

lemma resolve_total: "\<exists>s. resolve data field dflt = Inr s"
proof (cases data)
  case None
  then show ?thesis by (simp add: resolve_def)
next
  case (Some d)
  show ?thesis
  proof (cases field)
    case None
    with Some show ?thesis by (simp add: resolve_def)
  next
    case f: (Some f)
    show ?thesis
    proof (cases "js_truthy d \<and> f \<noteq> []")
      case False
      with Some f show ?thesis by (auto simp add: resolve_def)
    next
      case True
      then have t: "js_truthy d" by simp
      then have t': "js_truthy (deep_copy d)" by (simp add: deep_copy_id)
      from js_get_truthy [OF t] obtain r where r: "js_get d f = Inr r" by blast
      from walk_total [OF t'] obtain w
        where w: "walk (deep_copy d) (split_on CHR ''.'' f) = Inr w" by blast
      from Some f True r w show ?thesis
        by (auto simp add: resolve_def split: option.splits)
    qed
  qed
qed

text \<open>An empty field is no field: the guard of line 178 is false for it.\<close>

lemma empty_field_is_no_field: "resolve data (Some []) dflt = Inr dflt"
  by (simp add: resolve_def split: option.splits)





text \<open>
  C2. Field precedence in the binary renderer. A run with an explicit field is resolved
  with that field, and its value does not depend on \<^verbatim>\<open>htmlConfig\<close> at all; the field
  of \<^verbatim>\<open>htmlConfig\<close> is used only when the run has no explicit field; a run with neither
  keeps its default text.
\<close>

theorem field_precedence:
  "(run_field options = Some f \<longrightarrow>
      renderChildren_value data options = resolve data (Some f) (default_text options)
      \<and> renderChildren_value data (options\<lparr>run_htmlConfig := hc\<rparr>)
          = renderChildren_value data options)
   \<and> (run_field options = None \<and> run_htmlConfig options = Some c \<longrightarrow>
      renderChildren_value data options = resolve data (Some (hc_field c)) (default_text options))
   \<and> (run_field options = None \<and> run_htmlConfig options = None \<longrightarrow>
      renderChildren_value data options = Inr (default_text options))"
  by (auto simp add: renderChildren_value_def run_effective_field_def default_text_def
        resolve_def split: option.splits)

theorem field_precedence_witness:
  "renderChildren_value (Some (JObj [(''k1'', JStr ''A''), (''k2'', JStr ''B'')]))
     (empty_text_run\<lparr>run_field := Some ''k1'',
        run_htmlConfig := Some \<lparr>hc_field = ''k2'', hc_name = None, hc_props = None\<rparr>\<rparr>)
     = Inr ''A''
   \<and> renderChildren_value (Some (JObj [(''k1'', JStr ''A''), (''k2'', JStr ''B'')]))
     (empty_text_run\<lparr>run_htmlConfig := Some \<lparr>hc_field = ''k2'', hc_name = None, hc_props = None\<rparr>\<rparr>)
     = Inr ''B''
   \<and> renderChildren_value (Some (JObj [(''k1'', JStr ''A''), (''k2'', JStr ''B'')]))
     (empty_text_run\<lparr>run_text := Some ''T''\<rparr>) = Inr ''T''"
  using field_precedence
      [of "empty_text_run\<lparr>run_field := Some ''k1'',
             run_htmlConfig := Some \<lparr>hc_field = ''k2'', hc_name = None, hc_props = None\<rparr>\<rparr>"
          "''k1''" "Some (JObj [(''k1'', JStr ''A''), (''k2'', JStr ''B'')])"]
    field_precedence
      [of "empty_text_run\<lparr>run_htmlConfig :=
             Some \<lparr>hc_field = ''k2'', hc_name = None, hc_props = None\<rparr>\<rparr>"
          _ "Some (JObj [(''k1'', JStr ''A''), (''k2'', JStr ''B'')])" _
          "\<lparr>hc_field = ''k2'', hc_name = None, hc_props = None\<rparr>"]
    field_precedence
      [of "empty_text_run\<lparr>run_text := Some ''T''\<rparr>"
          _ "Some (JObj [(''k1'', JStr ''A''), (''k2'', JStr ''B'')])"]
  by (simp add: empty_text_run_def resolve_def default_text_def)



section \<open>The two renderers resolve differently\<close>

text \<open>
  C4. The value that the HTML renderer shows for a text run is not always the value of the
  binary renderer. For a run with the explicit field \<^verbatim>\<open>k\<close> and no
  \<^verbatim>\<open>htmlConfig\<close>, and the bag \<^verbatim>\<open>{k: "V"}\<close>, the binary renderer resolves
  \<^verbatim>\<open>V\<close> and the HTML renderer keeps the default text. For a field of
  \<^verbatim>\<open>htmlConfig\<close> whose walk ends at the number zero, the binary renderer keeps the
  default and the HTML renderer shows \<^verbatim>\<open>0\<close>; where the walk crosses \<^verbatim>\<open>null\<close>,
  the binary renderer keeps the default and the HTML renderer throws.
\<close>

theorem html_value_diverges:
  "renderChildren_value (Some (JObj [(''k'', JStr ''V'')]))
     (empty_text_run\<lparr>run_text := Some ''T'', run_field := Some ''k''\<rparr>) = Inr ''V''
   \<and> renderChildrenHtml_value (Some (JObj [(''k'', JStr ''V'')]))
     (empty_text_run\<lparr>run_text := Some ''T'', run_field := Some ''k''\<rparr>) = Inr ''T''
   \<and> renderChildren_value (Some (JObj [(''a'', JObj [(''b'', JNum 0)])]))
     (empty_text_run\<lparr>run_text := Some ''T'',
        run_htmlConfig := Some \<lparr>hc_field = ''a.b'', hc_name = None, hc_props = None\<rparr>\<rparr>)
       = Inr ''T''
   \<and> renderChildrenHtml_value (Some (JObj [(''a'', JObj [(''b'', JNum 0)])]))
     (empty_text_run\<lparr>run_text := Some ''T'',
        run_htmlConfig := Some \<lparr>hc_field = ''a.b'', hc_name = None, hc_props = None\<rparr>\<rparr>)
       = Inr ''0''
   \<and> renderChildren_value (Some (JObj [(''a'', JNull)]))
     (empty_text_run\<lparr>run_text := Some ''T'',
        run_htmlConfig := Some \<lparr>hc_field = ''a.b'', hc_name = None, hc_props = None\<rparr>\<rparr>)
       = Inr ''T''
   \<and> renderChildrenHtml_value (Some (JObj [(''a'', JNull)]))
     (empty_text_run\<lparr>run_text := Some ''T'',
        run_htmlConfig := Some \<lparr>hc_field = ''a.b'', hc_name = None, hc_props = None\<rparr>\<rparr>)
       = Inl TypeError"
  by (simp add: renderChildren_value_def renderChildrenHtml_value_def run_effective_field_def
        empty_text_run_def default_text_def resolve_def resolveHtml_def int_to_string_def
        nat_to_string.simps digit_char_def)

section \<open>Rendering never fails\<close>



lemma paragraphChildren_total: "\<exists>cs. paragraphChildren this data xs = Inr cs"
proof (induction xs)
  case Nil
  then show ?case by simp
next
  case (Cons x xs)
  then obtain cs where cs: "paragraphChildren this data xs = Inr cs" by blast
  show ?case
  proof (cases x)
    case (TextType options)
    obtain v where "renderChildren_value data options = Inr v"
      unfolding renderChildren_value_def using resolve_total by blast
    with cs TextType show ?thesis by simp
  next
    case (ImageType options)
    with cs show ?thesis by simp
  qed
qed

lemma renderChildren_total:
  "\<exists>fc. renderChildren this data cs = Inr fc"
  "\<exists>rs. renderRows this data rows = Inr rs"
  "\<exists>tc. renderCells this data cells = Inr tc"
proof (induction this data cs and this data rows and this data cells
    rule: renderChildren_renderRows_renderCells.induct)
  case (2 this data options children rest)
  then show ?case using paragraphChildren_total [of this data children] by auto
qed auto

section \<open>Line breaks of the binary renderer\<close>

lemma line_runs_length: "length (line_runs this options i line) = length line"
  by (simp add: line_runs_def)




























text \<open>
  On a later line of several segments the break is on the last segment, not on the first:
  the value of \<^verbatim>\<open>a\<close>, a newline and \<^verbatim>\<open>b<b>c</b>\<close> emits the runs
  \<^verbatim>\<open>a\<close>, \<^verbatim>\<open>b\<close> and \<^verbatim>\<open>c\<close> with the break before \<^verbatim>\<open>c\<close>.
\<close>

lemma later_line_break_on_last_segment:
  "map text_of (text_runs (new_DocxBuilder 0) empty_text_run (''a'' @ [CHR 0x0A] @ ''b<b>c</b>''))
     = [Some ''a'', Some ''b'', Some ''c'']
   \<and> map break_of (text_runs (new_DocxBuilder 0) empty_text_run (''a'' @ [CHR 0x0A] @ ''b<b>c</b>''))
     = [Some 0, Some 0, Some 1]"
  by code_simp



section \<open>Empty paragraphs\<close>

text \<open>
  C7. A paragraph whose children emit no run contributes nothing to the output of
  \<^verbatim>\<open>renderChildren\<close>, in particular a paragraph whose only text run resolves to the
  empty string; a paragraph with at least one run contributes one paragraph. A literal
  empty paragraph always contributes exactly one paragraph, holding one run of empty text.
  The rest of the list always renders.
\<close>

theorem empty_paragraph_suppression:
  "(paragraphChildren this data children = Inr [] \<longrightarrow>
      renderChildren this data (ParagraphType options children # rest)
        = renderChildren this data rest)
   \<and> (renderChildren_value data topts = Inr [] \<longrightarrow>
      renderChildren this data [ParagraphType options [TextType topts]] = Inr [])
   \<and> (paragraphChildren this data children = Inr cs \<and> cs \<noteq> [] \<longrightarrow>
      (\<exists>fc. renderChildren this data rest = Inr fc
         \<and> renderChildren this data (ParagraphType options children # rest)
             = Inr (Paragraph options cs # fc)))
   \<and> (\<exists>fc. renderChildren this data rest = Inr fc
         \<and> renderChildren this data (EmptyParagraphType # rest) = Inr (emptyParagraph # fc))
   \<and> renderChildren this data [EmptyParagraphType] = Inr [emptyParagraph]"
proof -
  obtain fc where fc: "renderChildren this data rest = Inr fc"
    using renderChildren_total(1) by blast
  have a: "renderChildren this data (ParagraphType options children # rest)
        = renderChildren this data rest" if "paragraphChildren this data children = Inr []"
    using that fc by simp
  have b: "renderChildren this data [ParagraphType options [TextType topts]] = Inr []"
    if "renderChildren_value data topts = Inr []"
    using that by (simp add: text_runs_def)
  have c: "renderChildren this data (ParagraphType options children # rest)
             = Inr (Paragraph options cs # fc)"
    if "paragraphChildren this data children = Inr cs" and "cs \<noteq> []"
    using that fc by simp
  show ?thesis using a b c fc by simp
qed

theorem empty_paragraph_suppression_witness:
  "renderChildren (new_DocxBuilder 0) (Some (JObj [(''k'', JStr [])]))
     [ParagraphType [] [TextType (empty_text_run\<lparr>run_text := Some ''T'', run_field := Some ''k''\<rparr>)],
      EmptyParagraphType] = Inr [emptyParagraph]
   \<and> renderChildren (new_DocxBuilder 0) (Some (JObj [(''k'', JStr [])]))
     [ParagraphType [] [TextType (empty_text_run\<lparr>run_text := Some ''T'', run_field := Some ''k''\<rparr>)]]
       = Inr []
   \<and> renderChildren (new_DocxBuilder 0) None
     [ParagraphType [] [ImageType []], EmptyParagraphType]
       = Inr [Paragraph [] [ImageRun []], emptyParagraph]"
proof -
  let ?b = "new_DocxBuilder 0"
  let ?data = "Some (JObj [(''k'', JStr [])])"
  let ?t = "empty_text_run\<lparr>run_text := Some ''T'', run_field := Some ''k''\<rparr>"
  have v: "renderChildren_value ?data ?t = Inr []"
    by (simp add: renderChildren_value_def run_effective_field_def resolve_def empty_text_run_def)
  then have p: "paragraphChildren ?b ?data [TextType ?t] = Inr []"
    by (simp add: text_runs_def)
  have i: "paragraphChildren ?b None [ImageType []] = Inr [ImageRun []]"
    by simp
  have e: "renderChildren ?b ?data [EmptyParagraphType] = Inr [emptyParagraph]"
    using empty_paragraph_suppression [of ?b ?data] by simp
  have e': "renderChildren ?b None [EmptyParagraphType] = Inr [emptyParagraph]"
    using empty_paragraph_suppression [of ?b None] by simp
  have 1: "renderChildren ?b ?data [ParagraphType [] [TextType ?t], EmptyParagraphType]
            = Inr [emptyParagraph]"
    using empty_paragraph_suppression
      [where this = ?b and data = ?data and children = "[TextType ?t]" and options = "[]"
         and rest = "[EmptyParagraphType]"] p e
    by simp
  have 2: "renderChildren ?b ?data [ParagraphType [] [TextType ?t]] = Inr []"
    using empty_paragraph_suppression
      [where this = ?b and data = ?data and topts = ?t and options = "[]"] v
    by simp
  have 3: "renderChildren ?b None [ParagraphType [] [ImageType []], EmptyParagraphType]
            = Inr [Paragraph [] [ImageRun []], emptyParagraph]"
    using empty_paragraph_suppression
      [where this = ?b and data = None and children = "[ImageType []]" and options = "[]"
         and cs = "[ImageRun []]" and rest = "[EmptyParagraphType]"] i e'
    by simp
  from 1 2 3 show ?thesis by simp
qed

section \<open>Blank lines of a value\<close>




section \<open>The segments of a line cover it\<close>















section \<open>The style sheet is injected once\<close>

lemma getElementById_Some_id: "getElementById doc ident = Some e \<Longrightarrow> el_id e = ident"
  by (auto simp: getElementById_def dest: find_Some_iff [THEN iffD1])

lemma injectStyle_found:
  "getElementById doc ident = Some e \<Longrightarrow> injectStyle ident doc = (e, doc)"
  by (simp add: injectStyle_def)

lemma find_append_cases:
  "find P (xs @ ys) = (case find P xs of Some x \<Rightarrow> Some x | None \<Rightarrow> find P ys)"
  by (induction xs) auto

lemma getElementById_after:
  "\<exists>e. getElementById (snd (injectStyle ident doc)) ident = Some e
       \<and> fst (injectStyle ident doc) = e"
proof (cases "getElementById doc ident")
  case None
  then have "find (\<lambda>e. el_id e = ident) (doc_head doc @ doc_body doc) = None"
    by (simp add: getElementById_def)
  then have no: "find (\<lambda>e. el_id e = ident) (doc_head doc) = None"
    "find (\<lambda>e. el_id e = ident) (doc_body doc) = None"
    by (auto simp: find_None_iff)
  have "find (\<lambda>e. el_id e = ident)
          (doc_head doc @ [\<lparr>el_tag = ''style'', el_id = ident, el_textContent = style_textContent\<rparr>]
            @ doc_body doc)
        = Some \<lparr>el_tag = ''style'', el_id = ident, el_textContent = style_textContent\<rparr>"
    using no by (simp add: find_append_cases)
  with None show ?thesis
    by (simp add: injectStyle_def getElementById_def Let_def)
next
  case (Some e)
  then show ?thesis by (simp add: injectStyle_def)
qed

lemma injectStyle_idem:
  "injectStyle ident (snd (injectStyle ident doc))
     = (fst (injectStyle ident doc), snd (injectStyle ident doc))"
  using getElementById_after [of ident doc] injectStyle_found by auto

lemma renderHtml_document_idem:
  "renderHtml_document this' data' (renderHtml_document this data doc)
     = renderHtml_document this data doc"
  by (simp add: renderHtml_document_def injectStyle_idem)

lemma renderHtml_calls_after:
  "renderHtml_calls calls (renderHtml_document this data doc) = renderHtml_document this data doc"
proof (induction calls)
  case Nil
  then show ?case by (simp add: renderHtml_calls_def)
next
  case (Cons c calls)
  obtain this' data' where c: "c = (this', data')" by (cases c)
  from Cons show ?case
    by (simp add: c renderHtml_calls_def renderHtml_document_idem)
qed

lemma renderHtml_calls_eq:
  "calls \<noteq> [] \<Longrightarrow> renderHtml_calls calls doc = snd (injectStyle ''docx-builder-style'' doc)"
proof (cases calls)
  case Nil
  assume "calls \<noteq> []"
  with Nil show ?thesis by simp
next
  case (Cons c rest)
  obtain this data where c: "c = (this, data)" by (cases c)
  have "renderHtml_calls calls doc = renderHtml_calls rest (renderHtml_document this data doc)"
    by (simp add: Cons c renderHtml_calls_def)
  then show ?thesis
    by (simp add: renderHtml_calls_after) (simp add: renderHtml_document_def)
qed

lemma count_id_found:
  "getElementById doc ident = Some e \<Longrightarrow> count_id ident (snd (injectStyle ident doc)) = count_id ident doc"
  by (simp add: injectStyle_found)

lemma count_id_new:
  assumes "getElementById doc ident = None"
  shows "count_id ident (snd (injectStyle ident doc)) = 1"
proof -
  from assms have "filter (\<lambda>e. el_id e = ident) (doc_head doc @ doc_body doc) = []"
    by (auto simp: getElementById_def find_None_iff filter_empty_conv)
  then show ?thesis
    using assms by (simp add: injectStyle_def count_id_def Let_def)
qed

lemma count_id_zero: "count_id ident doc = 0 \<longleftrightarrow> getElementById doc ident = None"
  by (auto simp: count_id_def getElementById_def find_None_iff filter_empty_conv)

lemma injectStyle_head:
  "length (doc_head (snd (injectStyle ident doc))) \<le> Suc (length (doc_head doc))
   \<and> doc_body (snd (injectStyle ident doc)) = doc_body doc"
  by (simp add: injectStyle_def Let_def split: option.splits)

lemma injectStyle_count:
  "count_id ident (snd (injectStyle ident doc)) \<le> max 1 (count_id ident doc)"
proof (cases "getElementById doc ident")
  case None
  then show ?thesis by (simp add: count_id_new)
next
  case (Some e)
  then show ?thesis by (simp add: count_id_found)
qed

text \<open>
  C9. Injecting a style twice with one identifier is injecting it once: the second call
  finds the element of the first and leaves the document as it is. An element that
  already has the identifier is returned and nothing is added; when there is none, the
  document has exactly one afterwards. Every call of \<^verbatim>\<open>renderHtml\<close> injects with the
  identifier \<^verbatim>\<open>docx-builder-style\<close>, whatever the builder and the data, so any
  sequence of calls that is not empty leaves the document as one call does: at most one
  element is added to the head, the body is unchanged, and a document that had no element
  with the identifier has exactly one.
\<close>

theorem style_injection_idempotent:
  "injectStyle ident (snd (injectStyle ident doc))
     = (fst (injectStyle ident doc), snd (injectStyle ident doc))
   \<and> (getElementById doc ident = Some e \<longrightarrow> injectStyle ident doc = (e, doc))
   \<and> (getElementById doc ident = None \<longrightarrow> count_id ident (snd (injectStyle ident doc)) = 1)
   \<and> renderHtml_document this' data' (renderHtml_document this data doc)
       = renderHtml_document this data doc
   \<and> (calls \<noteq> [] \<longrightarrow> renderHtml_calls calls doc = renderHtml_document this data doc)
   \<and> (calls \<noteq> [] \<and> count_id ''docx-builder-style'' doc = 0 \<longrightarrow>
        count_id ''docx-builder-style'' (renderHtml_calls calls doc) = 1)
   \<and> length (doc_head (renderHtml_calls calls doc)) \<le> Suc (length (doc_head doc))
   \<and> doc_body (renderHtml_calls calls doc) = doc_body doc
   \<and> count_id ''docx-builder-style'' (renderHtml_calls calls doc)
       \<le> max 1 (count_id ''docx-builder-style'' doc)"
proof -
  have calls_eq: "renderHtml_calls calls doc = renderHtml_document this data doc"
    if "calls \<noteq> []"
    using that by (simp add: renderHtml_calls_eq renderHtml_document_def)
  have fresh: "count_id ''docx-builder-style'' (renderHtml_calls calls doc) = 1"
    if "calls \<noteq> []" and "count_id ''docx-builder-style'' doc = 0"
    using that by (simp add: renderHtml_calls_eq count_id_zero count_id_new)
  have shape: "length (doc_head (renderHtml_calls calls doc)) \<le> Suc (length (doc_head doc))
      \<and> doc_body (renderHtml_calls calls doc) = doc_body doc
      \<and> count_id ''docx-builder-style'' (renderHtml_calls calls doc)
          \<le> max 1 (count_id ''docx-builder-style'' doc)"
  proof (cases "calls = []")
    case True
    then show ?thesis by (simp add: renderHtml_calls_def)
  next
    case False
    then show ?thesis
      using injectStyle_head [of "''docx-builder-style''" doc]
        injectStyle_count [of "''docx-builder-style''" doc]
      by (simp add: renderHtml_calls_eq)
  qed
  show ?thesis
    using injectStyle_idem [of ident doc] injectStyle_found [of doc ident e]
      count_id_new [of doc ident] renderHtml_document_idem [of this' data' this data doc]
      calls_eq fresh shape
    by blast
qed

theorem style_injection_idempotent_witness:
  "count_id ''docx-builder-style''
     (renderHtml_calls
        [(new_DocxBuilder 0, None), (new_DocxBuilder 1, Some (JObj [])), (new_DocxBuilder 0, None)]
        \<lparr>doc_head = [], doc_body = []\<rparr>) = 1
   \<and> renderHtml_calls
        [(new_DocxBuilder 0, None), (new_DocxBuilder 1, Some (JObj [])), (new_DocxBuilder 0, None)]
        \<lparr>doc_head = [], doc_body = []\<rparr>
       = renderHtml_document (new_DocxBuilder 7) None \<lparr>doc_head = [], doc_body = []\<rparr>
   \<and> count_id ''docx-builder-style''
        (snd (injectStyle ''docx-builder-style'' \<lparr>doc_head = [], doc_body = []\<rparr>)) = 1
   \<and> injectStyle ''docx-builder-style''
        \<lparr>doc_head = [\<lparr>el_tag = ''style'', el_id = ''docx-builder-style'', el_textContent = ''x''\<rparr>],
         doc_body = []\<rparr>
       = (\<lparr>el_tag = ''style'', el_id = ''docx-builder-style'', el_textContent = ''x''\<rparr>,
          \<lparr>doc_head = [\<lparr>el_tag = ''style'', el_id = ''docx-builder-style'', el_textContent = ''x''\<rparr>],
           doc_body = []\<rparr>)"
proof -
  let ?calls = "[(new_DocxBuilder 0, None), (new_DocxBuilder 1, Some (JObj [])),
                 (new_DocxBuilder 0, None)]"
  let ?doc = "\<lparr>doc_head = [], doc_body = []\<rparr>"
  let ?e = "\<lparr>el_tag = ''style'', el_id = ''docx-builder-style'', el_textContent = ''x''\<rparr>"
  have z: "count_id ''docx-builder-style'' ?doc = 0"
    by (simp add: count_id_def)
  have n: "getElementById ?doc ''docx-builder-style'' = None"
    by (simp add: getElementById_def)
  have ne: "?calls \<noteq> []"
    by simp
  have a: "count_id ''docx-builder-style'' (renderHtml_calls ?calls ?doc) = 1"
    using style_injection_idempotent [where calls = ?calls and doc = ?doc] z ne by blast
  have c: "renderHtml_calls ?calls ?doc = renderHtml_document (new_DocxBuilder 7) None ?doc"
    using style_injection_idempotent
      [where calls = ?calls and doc = ?doc and this = "new_DocxBuilder 7" and data = None] ne
    by blast
  have d: "count_id ''docx-builder-style'' (snd (injectStyle ''docx-builder-style'' ?doc)) = 1"
    using style_injection_idempotent [where ident = "''docx-builder-style''" and doc = ?doc] n
    by blast
  have g: "getElementById \<lparr>doc_head = [?e], doc_body = []\<rparr> ''docx-builder-style'' = Some ?e"
    by (simp add: getElementById_def)
  have b: "injectStyle ''docx-builder-style'' \<lparr>doc_head = [?e], doc_body = []\<rparr>
      = (?e, \<lparr>doc_head = [?e], doc_body = []\<rparr>)"
    using style_injection_idempotent
      [where ident = "''docx-builder-style''" and doc = "\<lparr>doc_head = [?e], doc_body = []\<rparr>"
         and e = ?e] g
    by blast
  from a c d b show ?thesis by blast
qed

section \<open>The unit conversions at the values of the specification\<close>


text \<open>
  That the products are binary64 products shows at fifty centimetres: the product with the
  literal is just below 28346.5 and rounds to 28346, where the product with the decimal
  fraction is 28346.5 and rounds to 28347.
\<close>

lemma cmToTwips_binary64_product:
  "cmToTwips 50 = 28346 \<and> Math_round (50 * (56693 / 100)) = 28347"
  by code_simp

end
